theory Spec2Isabelle
  imports Main
begin

section \<open>Python objects the module handles\<close>

text \<open>
  The module \<^verbatim>\<open>google_cloud_components/aiplatform/utils.py\<close> turns a method of an SDK
  class into a pipeline component.  It works by reflection: it reads signatures, looks at
  annotations and at the run-time values of keyword arguments, and renders a manifest text.
  The objects it inspects are modelled by the datatypes of this section.
\<close>

datatype pyerror = KeyError | TypeError | ValueError | IndexError

text \<open>
  A class is its \<^verbatim>\<open>__name__\<close> and its base classes; \<^verbatim>\<open>issubclass\<close> is the reflexive
  and transitive closure of the base relation.
\<close>

datatype pyclass = PyClass (class_name: string) (class_bases: "pyclass list")

fun issubclass :: "pyclass \<Rightarrow> pyclass \<Rightarrow> bool" where
  "issubclass (PyClass n bs) k = (PyClass n bs = k \<or> list_ex (\<lambda>b. issubclass b k) bs)"

text \<open>
  The value of \<^verbatim>\<open>__origin__\<close> of a subscripted generic of \<^verbatim>\<open>typing\<close>:
  \<^verbatim>\<open>Dict[..]\<close> has \<^verbatim>\<open>dict\<close>, \<^verbatim>\<open>List[..]\<close> has \<^verbatim>\<open>list\<close>, \<^verbatim>\<open>Sequence[..]\<close> has
  \<^verbatim>\<open>collections.abc.Sequence\<close>; any other origin is kept by name.  \<^verbatim>\<open>Union\<close> has a
  constructor of its own below.
\<close>

datatype origin = DictO | ListO | SequenceO | OtherO string

text \<open>
  What an annotation can be: a class, a string (a forward reference written as text), a
  \<^verbatim>\<open>typing.ForwardRef\<close>, a \<^verbatim>\<open>Union\<close> (which \<^verbatim>\<open>typing\<close> builds with at least one
  argument; \<^verbatim>\<open>Optional[X]\<close> is \<^verbatim>\<open>Union[X, NoneType]\<close>), another subscripted generic,
  the marker \<^verbatim>\<open>inspect._empty\<close>, \<^verbatim>\<open>None\<close>, or any other object (a module, a function),
  which is truthy and has no \<^verbatim>\<open>__origin__\<close>.
\<close>

datatype pytype =
    ClassT pyclass
  | StrT string
  | ForwardRefT string
  | UnionT pytype "pytype list"
  | GenericT origin "pytype list"
  | EmptyT
  | NoneT
  | ObjectT string

text \<open>Run-time values of keyword arguments and of parameter defaults.\<close>

datatype pyvalue =
    VNone
  | VBool bool
  | VInt int
  | VStr string
  | VList "pyvalue list"
  | VDict "(string \<times> pyvalue) list"
  | VPipelineParam string

text \<open>
  What the module takes from outside the repository and a claim may depend on:
  \<^item> \<open>aiplatform_getattr n\<close> is \<^verbatim>\<open>getattr(aiplatform, n, None)\<close>, the SDK module's
    namespace (\<open>NoneT\<close> when the module has no such attribute);
  \<^item> \<open>py_format v\<close> is the text an f-string puts for \<^verbatim>\<open>{v}\<close>;
  \<^item> \<open>json_dumps v\<close> is \<^verbatim>\<open>json.dumps(v)\<close>, which raises on a value it cannot encode.
\<close>

record pyenv =
  aiplatform_getattr :: "string \<Rightarrow> pytype"
  py_format :: "pyvalue \<Rightarrow> string"
  json_dumps :: "pyvalue \<Rightarrow> pyerror + string"

text \<open>Truth value of an object in a condition (\<^verbatim>\<open>if x:\<close>).\<close>

fun truthy :: "pytype \<Rightarrow> bool" where
  "truthy NoneT = False"
| "truthy (StrT s) = (s \<noteq> [])"
| "truthy _ = True"

text \<open>\<^verbatim>\<open>inspect.isclass\<close>: \<^verbatim>\<open>inspect._empty\<close> is a class too.\<close>

fun isclass :: "pytype \<Rightarrow> bool" where
  "isclass (ClassT c) = True"
| "isclass EmptyT = True"
| "isclass _ = False"

subsection \<open>The SDK classes the module names\<close>

text \<open>
  Modelled from the spec: the SDK's class hierarchy is not part of the repository.  The
  glossary calls a resource noun "a class in the wrapped SDK representing a cloud resource
  (dataset, model, endpoint, job)"; the module names the base class
  \<^verbatim>\<open>aiplatform.base.AiPlatformResourceNoun\<close> and the four classes that key its table.  They
  are modelled as four unrelated subclasses of the base class.
\<close>

definition AiPlatformResourceNoun :: pyclass where
  "AiPlatformResourceNoun = PyClass ''AiPlatformResourceNoun'' []"

definition Dataset_class :: pyclass where
  "Dataset_class = PyClass ''_Dataset'' [AiPlatformResourceNoun]"

definition Model_class :: pyclass where
  "Model_class = PyClass ''Model'' [AiPlatformResourceNoun]"

definition Endpoint_class :: pyclass where
  "Endpoint_class = PyClass ''Endpoint'' [AiPlatformResourceNoun]"

definition BatchPredictionJob_class :: pyclass where
  "BatchPredictionJob_class = PyClass ''BatchPredictionJob'' [AiPlatformResourceNoun]"

definition str_class :: pyclass where
  "str_class = PyClass ''str'' []"

text \<open>\<^verbatim>\<open>RESOURCE_TO_METADATA_TYPE\<close>, in the order the dictionary literal lists it.\<close>

definition RESOURCE_TO_METADATA_TYPE :: "(pyclass \<times> string) list" where
  "RESOURCE_TO_METADATA_TYPE =
     [(Dataset_class, ''Dataset''),
      (Model_class, ''Model''),
      (Endpoint_class, ''Artifact''),
      (BatchPredictionJob_class, ''Artifact'')]"

text \<open>
  The part of the SDK module's namespace that the source itself dereferences: the classes
  \<^verbatim>\<open>aiplatform.Model\<close>, \<^verbatim>\<open>aiplatform.Endpoint\<close>, \<^verbatim>\<open>aiplatform.BatchPredictionJob\<close> and
  the submodules \<^verbatim>\<open>aiplatform.base\<close> and \<^verbatim>\<open>aiplatform.datasets\<close>.
\<close>

definition sdk_getattr :: "string \<Rightarrow> pytype" where
  "sdk_getattr n =
     (if n = ''Model'' then ClassT Model_class
      else if n = ''Endpoint'' then ClassT Endpoint_class
      else if n = ''BatchPredictionJob'' then ClassT BatchPredictionJob_class
      else if n = ''base'' then ObjectT ''module google.cloud.aiplatform.base''
      else if n = ''datasets'' then ObjectT ''module google.cloud.aiplatform.datasets''
      else NoneT)"

section \<open>Annotation resolution\<close>

text \<open>
  The resolver reads the SDK module's namespace only; it takes it as \<open>ns\<close>, where
  \<open>ns n\<close> is \<^verbatim>\<open>getattr(aiplatform, n, None)\<close>.
\<close>

definition get_aiplatform_class_by_name :: "(string \<Rightarrow> pytype) \<Rightarrow> pytype \<Rightarrow> pytype" where
  "get_aiplatform_class_by_name ns annotation =
     (case annotation of StrT s \<Rightarrow> ns s | _ \<Rightarrow> NoneT)"

definition get_forward_reference :: "(string \<Rightarrow> pytype) \<Rightarrow> pytype \<Rightarrow> pytype" where
  "get_forward_reference ns annotation =
     (let ai_platform_class = get_aiplatform_class_by_name ns annotation in
      if truthy ai_platform_class then ai_platform_class
      else (case annotation of
              ForwardRefT arg \<Rightarrow>
                (let ai_platform_class = get_aiplatform_class_by_name ns (StrT arg) in
                 if truthy ai_platform_class then ai_platform_class else NoneT)
            | _ \<Rightarrow> NoneT))"

text \<open>
  \<^verbatim>\<open>is_mb_sdk_resource_noun_type\<close> (and its twin \<^verbatim>\<open>should_be_metadata_type\<close>):
  a class that is a subclass of the resource-noun base class.
\<close>

fun is_mb_sdk_resource_noun_type :: "pytype \<Rightarrow> bool" where
  "is_mb_sdk_resource_noun_type (ClassT c) = issubclass c AiPlatformResourceNoun"
| "is_mb_sdk_resource_noun_type _ = False"

definition resolve_annotation :: "(string \<Rightarrow> pytype) \<Rightarrow> pytype \<Rightarrow> pytype" where
  "resolve_annotation ns annotation =
     (if isclass annotation \<and> is_mb_sdk_resource_noun_type annotation then annotation
      else
        let resolved_annotation = get_forward_reference ns annotation in
        if truthy resolved_annotation then resolved_annotation
        else (case annotation of
                UnionT arg0 rest \<Rightarrow>
                  (let resolved_annotation = get_forward_reference ns arg0 in
                   if truthy resolved_annotation then resolved_annotation else arg0)
              | _ \<Rightarrow> if annotation = EmptyT then NoneT else annotation))"

section \<open>Serializable types and the type-to-artifact mapper\<close>

fun is_serializable_to_json :: "pytype \<Rightarrow> bool" where
  "is_serializable_to_json (GenericT org args) = (org \<in> {DictO, ListO, SequenceO})"
| "is_serializable_to_json _ = False"

text \<open>String helpers of Python that the mapper and the signature filter use.\<close>

definition startswith :: "string \<Rightarrow> string \<Rightarrow> bool" where
  "startswith s p = (take (length p) s = p)"

definition endswith :: "string \<Rightarrow> string \<Rightarrow> bool" where
  "endswith s x = (length x \<le> length s \<and> drop (length s - length x) s = x)"

definition lower_char :: "char \<Rightarrow> char" where
  "lower_char c =
     (if 65 \<le> (of_char c :: nat) \<and> (of_char c :: nat) \<le> 90
      then char_of ((of_char c :: nat) + 32) else c)"

definition lower :: "string \<Rightarrow> string" where
  "lower s = map lower_char s"

text \<open>\<^verbatim>\<open>s.split('.')[-1]\<close>: what follows the last dot.\<close>

definition last_dot_segment :: "string \<Rightarrow> string" where
  "last_dot_segment s = rev (takeWhile (\<lambda>c. c \<noteq> CHR ''.'') (rev s))"

definition key_parameter_name :: "pyclass \<Rightarrow> string" where
  "key_parameter_name key =
     (let parameter_name = lower (last_dot_segment (class_name key)) in
      if startswith parameter_name ''_'' then drop 1 parameter_name else parameter_name)"

text \<open>
  The loop over the keys of the table: the first key, in the table's order, that the type
  is a subclass of decides.
\<close>

fun lookup_metadata_type :: "pyclass \<Rightarrow> (pyclass \<times> string) list \<Rightarrow> (string \<times> string) option" where
  "lookup_metadata_type c [] = None"
| "lookup_metadata_type c ((key, label) # rest) =
     (if issubclass c key then Some (key_parameter_name key, label)
      else lookup_metadata_type c rest)"

definition resource_lookup :: "pytype \<Rightarrow> (string \<times> string) option" where
  "resource_lookup mb_sdk_type =
     (case mb_sdk_type of
        ClassT c \<Rightarrow>
          if is_mb_sdk_resource_noun_type mb_sdk_type
          then lookup_metadata_type c RESOURCE_TO_METADATA_TYPE else None
      | _ \<Rightarrow> None)"

definition map_resource_to_metadata_type :: "pytype \<Rightarrow> (string \<times> string) option" where
  "map_resource_to_metadata_type mb_sdk_type =
     (case resource_lookup mb_sdk_type of
        Some r \<Rightarrow> Some r
      | None \<Rightarrow>
          if is_serializable_to_json mb_sdk_type then Some (''exported_dataset'', ''JsonArray'')
          else if mb_sdk_type = StrT ''_Dataset'' then Some (''dataset'', ''Dataset'')
          else None)"

text \<open>
  \<^verbatim>\<open>get_serializer\<close> and \<^verbatim>\<open>get_deserializer\<close> return the library function itself
  (\<^verbatim>\<open>json.dumps\<close>, here \<open>dumps\<close>, and \<^verbatim>\<open>json.loads\<close>, here \<open>loads\<close>), or \<^verbatim>\<open>None\<close>
  by falling off the end.
\<close>

definition get_serializer ::
  "(pyvalue \<Rightarrow> pyerror + string) \<Rightarrow> pytype \<Rightarrow> (pyvalue \<Rightarrow> pyerror + string) option" where
  "get_serializer dumps annotation =
     (if is_serializable_to_json annotation then Some dumps else None)"

definition get_deserializer ::
  "(string \<Rightarrow> pyerror + pyvalue) \<Rightarrow> pytype \<Rightarrow> (string \<Rightarrow> pyerror + pyvalue) option" where
  "get_deserializer loads annotation =
     (if is_serializable_to_json annotation then Some loads else None)"

section \<open>Signatures\<close>

text \<open>
  \<^verbatim>\<open>inspect.Parameter\<close> and \<^verbatim>\<open>inspect.Signature\<close> belong to the interpreter's library.
  Their constructors check what they are given and raise; \<^verbatim>\<open>Signature.bind\<close> raises
  \<^verbatim>\<open>TypeError\<close> when the arguments do not fit.  These checks are written out here as the
  library (CPython 3.11) has them, since the module's functions raise exactly where they do.
  A default of \<open>None\<close> stands for \<^verbatim>\<open>inspect._empty\<close>: the parameter has no default.
\<close>

datatype kind =
  POSITIONAL_ONLY | POSITIONAL_OR_KEYWORD | VAR_POSITIONAL | KEYWORD_ONLY | VAR_KEYWORD

fun kind_rank :: "kind \<Rightarrow> nat" where
  "kind_rank POSITIONAL_ONLY = 0"
| "kind_rank POSITIONAL_OR_KEYWORD = 1"
| "kind_rank VAR_POSITIONAL = 2"
| "kind_rank KEYWORD_ONLY = 3"
| "kind_rank VAR_KEYWORD = 4"

record parameter =
  name :: string
  kind :: kind
  default_value :: "pyvalue option"
  annotation :: pytype

record signature =
  parameters :: "parameter list"
  return_annotation :: pytype

definition is_ascii_letter :: "char \<Rightarrow> bool" where
  "is_ascii_letter c =
     ((65 \<le> (of_char c :: nat) \<and> (of_char c :: nat) \<le> 90) \<or>
      (97 \<le> (of_char c :: nat) \<and> (of_char c :: nat) \<le> 122))"

definition is_ascii_digit :: "char \<Rightarrow> bool" where
  "is_ascii_digit c = (48 \<le> (of_char c :: nat) \<and> (of_char c :: nat) \<le> 57)"

text \<open>\<^verbatim>\<open>str.isdigit\<close> and \<^verbatim>\<open>str.isidentifier\<close>, on ASCII text.\<close>

definition isdigit :: "string \<Rightarrow> bool" where
  "isdigit s = (s \<noteq> [] \<and> list_all is_ascii_digit s)"

definition isidentifier :: "string \<Rightarrow> bool" where
  "isidentifier s =
     (case s of
        [] \<Rightarrow> False
      | c # cs \<Rightarrow> (is_ascii_letter c \<or> c = CHR ''_'') \<and>
                 list_all (\<lambda>d. is_ascii_letter d \<or> is_ascii_digit d \<or> d = CHR ''_'') cs)"

definition kwlist :: "string list" where
  "kwlist =
     [''False'', ''None'', ''True'', ''and'', ''as'', ''assert'', ''async'', ''await'',
      ''break'', ''class'', ''continue'', ''def'', ''del'', ''elif'', ''else'', ''except'',
      ''finally'', ''for'', ''from'', ''global'', ''if'', ''import'', ''in'', ''is'',
      ''lambda'', ''nonlocal'', ''not'', ''or'', ''pass'', ''raise'', ''return'', ''try'',
      ''while'', ''with'', ''yield'']"

definition iskeyword :: "string \<Rightarrow> bool" where
  "iskeyword s = (s \<in> set kwlist)"

text \<open>The last check of \<^verbatim>\<open>inspect.Parameter.__init__\<close>, on the name it settled on.\<close>

definition checked_parameter ::
  "string \<Rightarrow> kind \<Rightarrow> pyvalue option \<Rightarrow> pytype \<Rightarrow> pyerror + parameter" where
  "checked_parameter n k d a =
     (if (iskeyword n \<and> k \<noteq> POSITIONAL_ONLY) \<or> \<not> isidentifier n then Inl ValueError
      else Inr \<lparr>name = n, kind = k, default_value = d, annotation = a\<rparr>)"

text \<open>
  \<^verbatim>\<open>inspect.Parameter(name=.., kind=.., default=.., annotation=..)\<close>: a variadic
  parameter has no default; \<^verbatim>\<open>name[0]\<close> raises on the empty name; a name \<^verbatim>\<open>.N\<close> is an
  implicit argument of a comprehension.
\<close>

definition Parameter ::
  "string \<Rightarrow> kind \<Rightarrow> pyvalue option \<Rightarrow> pytype \<Rightarrow> pyerror + parameter" where
  "Parameter n k d a =
     (if d \<noteq> None \<and> (k = VAR_POSITIONAL \<or> k = VAR_KEYWORD) then Inl ValueError
      else if n = [] then Inl IndexError
      else if hd n = CHR ''.'' \<and> isdigit (tl n) then
        (if k \<noteq> POSITIONAL_OR_KEYWORD then Inl ValueError
         else checked_parameter (''implicit'' @ tl n) POSITIONAL_ONLY d a)
      else checked_parameter n k d a)"

text \<open>
  The loop of \<^verbatim>\<open>inspect.Signature.__init__\<close>, with its three variables: the highest kind
  so far, whether a positional parameter with a default was seen, and the names so far.
\<close>

definition is_positional :: "kind \<Rightarrow> bool" where
  "is_positional k = (k = POSITIONAL_ONLY \<or> k = POSITIONAL_OR_KEYWORD)"

fun validate_parameters ::
  "kind \<Rightarrow> bool \<Rightarrow> string list \<Rightarrow> parameter list \<Rightarrow> pyerror + unit" where
  "validate_parameters top_kind seen_default names [] = Inr ()"
| "validate_parameters top_kind seen_default names (param # rest) =
     (if kind_rank (kind param) < kind_rank top_kind then Inl ValueError
      else if is_positional (kind param) \<and> default_value param = None \<and> seen_default
      then Inl ValueError
      else if name param \<in> set names then Inl ValueError
      else validate_parameters
             (if kind_rank top_kind < kind_rank (kind param) then kind param else top_kind)
             (seen_default \<or> (is_positional (kind param) \<and> default_value param \<noteq> None))
             (names @ [name param]) rest)"

definition Signature :: "parameter list \<Rightarrow> pytype \<Rightarrow> pyerror + signature" where
  "Signature params ret =
     (case validate_parameters POSITIONAL_ONLY False [] params of
        Inl e \<Rightarrow> Inl e
      | Inr u \<Rightarrow> Inr \<lparr>parameters = params, return_annotation = ret\<rparr>)"

text \<open>
  Dictionaries keep insertion order: an association list with one entry for each key.
  \<open>dict_set\<close> is \<^verbatim>\<open>d[k] = v\<close>, \<open>dict_del\<close> is \<^verbatim>\<open>d.pop(k)\<close> for a key that is there,
  \<open>dict_get\<close> is \<^verbatim>\<open>d.get(k, default)\<close>.
\<close>

fun dict_set :: "('k \<times> 'v) list \<Rightarrow> 'k \<Rightarrow> 'v \<Rightarrow> ('k \<times> 'v) list" where
  "dict_set [] k v = [(k, v)]"
| "dict_set ((k', v') # d) k v = (if k' = k then (k, v) # d else (k', v') # dict_set d k v)"

definition dict_del :: "('k \<times> 'v) list \<Rightarrow> 'k \<Rightarrow> ('k \<times> 'v) list" where
  "dict_del d k = filter (\<lambda>kv. fst kv \<noteq> k) d"

definition dict_get :: "('k \<times> 'v) list \<Rightarrow> 'k \<Rightarrow> 'v \<Rightarrow> 'v" where
  "dict_get d k dflt = (case map_of d k of None \<Rightarrow> dflt | Some v \<Rightarrow> v)"

text \<open>
  \<^verbatim>\<open>signature.bind(**kwargs)\<close>, with no positional argument.  The second loop of the
  library's \<^verbatim>\<open>_bind\<close> walks the parameters, takes the keyword arguments they name out of
  \<^verbatim>\<open>kwargs\<close> and remembers a \<^verbatim>\<open>**kwargs\<close> parameter; what is left over at the end must
  have one to go to.
\<close>

fun bind_keywords ::
  "parameter list \<Rightarrow> (string \<times> pyvalue) list \<Rightarrow> bool \<Rightarrow> pyerror + unit" where
  "bind_keywords [] kwargs kwargs_param =
     (if kwargs \<noteq> [] \<and> \<not> kwargs_param then Inl TypeError else Inr ())"
| "bind_keywords (param # rest) kwargs kwargs_param =
     (if kind param = VAR_KEYWORD then bind_keywords rest kwargs True
      else if kind param = VAR_POSITIONAL then bind_keywords rest kwargs kwargs_param
      else (case map_of kwargs (name param) of
              None \<Rightarrow>
                if default_value param = None then Inl TypeError
                else bind_keywords rest kwargs kwargs_param
            | Some arg_val \<Rightarrow>
                if kind param = POSITIONAL_ONLY then Inl TypeError
                else bind_keywords rest (dict_del kwargs (name param)) kwargs_param))"

text \<open>
  The first loop of \<^verbatim>\<open>_bind\<close> finds no positional argument, looks at the first
  parameter and hands over to the second loop.
\<close>

definition bind :: "signature \<Rightarrow> (string \<times> pyvalue) list \<Rightarrow> pyerror + unit" where
  "bind sg kwargs =
     (case parameters sg of
        [] \<Rightarrow> bind_keywords [] kwargs False
      | param # rest \<Rightarrow>
          if kind param = VAR_POSITIONAL then bind_keywords rest kwargs False
          else if map_of kwargs (name param) \<noteq> None then
            (if kind param = POSITIONAL_ONLY then Inl TypeError
             else bind_keywords (param # rest) kwargs False)
          else if kind param = VAR_KEYWORD \<or> default_value param \<noteq> None
          then bind_keywords (param # rest) kwargs False
          else Inl TypeError)"

section \<open>Signature filter and signature merger\<close>

definition is_resource_name_parameter_name :: "string \<Rightarrow> bool" where
  "is_resource_name_parameter_name param_name =
     (param_name \<noteq> ''display_name'' \<and>
      \<not> endswith param_name ''encryption_spec_key_name'' \<and>
      endswith param_name ''_name'')"

definition PARAMS_TO_REMOVE :: "string set" where
  "PARAMS_TO_REMOVE = {''self'', ''credentials'', ''sync''}"

text \<open>\<^verbatim>\<open>param.name[:-len('_name')]\<close>\<close>

definition drop_name_suffix :: "string \<Rightarrow> string" where
  "drop_name_suffix n = take (length n - length ''_name'') n"

text \<open>
  The loop of \<^verbatim>\<open>filter_signature\<close>.  The rename dictionary is an argument that defaults
  to \<^verbatim>\<open>None\<close>; storing into \<^verbatim>\<open>None\<close> raises \<^verbatim>\<open>TypeError\<close>.  The dictionary is returned
  with the result, as the caller sees its new content.
\<close>

fun filter_parameters ::
  "bool \<Rightarrow> pytype \<Rightarrow> parameter list \<Rightarrow> parameter list \<Rightarrow> (string \<times> string) list option
   \<Rightarrow> pyerror + (parameter list \<times> (string \<times> string) list option)" where
  "filter_parameters is_init_signature self_type [] new_params renames =
     Inr (new_params, renames)"
| "filter_parameters is_init_signature self_type (param # rest) new_params renames =
     (if name param \<notin> PARAMS_TO_REMOVE then
        (if is_init_signature \<and> is_resource_name_parameter_name (name param) then
           (let new_name = drop_name_suffix (name param) in
            case Parameter new_name (kind param) (default_value param) self_type of
              Inl e \<Rightarrow> Inl e
            | Inr new_param \<Rightarrow>
                (case renames of
                   None \<Rightarrow> Inl TypeError
                 | Some d \<Rightarrow>
                     filter_parameters is_init_signature self_type rest
                       (new_params @ [new_param]) (Some (dict_set d new_name (name param)))))
         else filter_parameters is_init_signature self_type rest (new_params @ [param]) renames)
      else filter_parameters is_init_signature self_type rest new_params renames)"

definition filter_signature ::
  "signature \<Rightarrow> bool \<Rightarrow> pytype \<Rightarrow> (string \<times> string) list option
   \<Rightarrow> pyerror + (signature \<times> (string \<times> string) list option)" where
  "filter_signature sg is_init_signature self_type renames =
     (case filter_parameters is_init_signature self_type (parameters sg) [] renames of
        Inl e \<Rightarrow> Inl e
      | Inr (new_params, renames') \<Rightarrow>
          (case Signature new_params (return_annotation sg) of
             Inl e \<Rightarrow> Inl e
           | Inr new_sg \<Rightarrow> Inr (new_sg, renames')))"

text \<open>The sort key of \<^verbatim>\<open>signatures_union\<close>; \<^verbatim>\<open>list.sort\<close> is stable, as \<open>sort_key\<close> is.\<close>

definition union_key :: "parameter \<Rightarrow> int" where
  "union_key param = (if default_value param = None then - 1 else 1)"

definition signatures_union :: "signature \<Rightarrow> signature \<Rightarrow> pyerror + signature" where
  "signatures_union init_sig method_sig =
     (let params = parameters init_sig @ parameters method_sig in
      Signature (sort_key union_key params) (return_annotation method_sig))"

section \<open>Conversion of a method to a component\<close>

definition INIT_KEY :: string where
  "INIT_KEY = ''init''"

definition METHOD_KEY :: string where
  "METHOD_KEY = ''method''"

definition DEFAULT_CONTAINER_IMAGE :: string where
  "DEFAULT_CONTAINER_IMAGE = ''gcr.io/sashaproject-1/aiplatform_component:latest''"

text \<open>\<^verbatim>\<open>sep.join(xs)\<close>\<close>

fun join :: "string \<Rightarrow> string list \<Rightarrow> string" where
  "join sep [] = []"
| "join sep [x] = x"
| "join sep (x # y # ys) = x @ sep @ join sep (y # ys)"

definition newline :: string where
  "newline = [CHR 0x0A]"

text \<open>
  What \<^verbatim>\<open>convert_method_to_component\<close> is given: the class with the signature of its
  \<^verbatim>\<open>__init__\<close>, and the method with its name, its signature and whether
  \<^verbatim>\<open>inspect.isfunction\<close> holds of it (a plain function taken from the class, not a bound
  class method).
\<close>

record pyclass_info =
  the_class :: pyclass
  init_method_signature :: signature

record pymethod =
  dunder_name :: string
  signature_of :: signature
  isfunction :: bool

text \<open>The variables of \<^verbatim>\<open>convert_method_to_component\<close> that the wrapper closes over.\<close>

record wrapper =
  cls_name :: string
  method_name :: string
  init_signature :: signature
  method_signature :: signature
  should_serialize_init :: bool
  component_param_name_to_mb_sdk_param_name :: "(string \<times> string) list"
  init_arg_names :: "string set"
  outputs :: string
  output_args :: string
  dunder_signature :: signature

text \<open>
  The output section.  Unpacking the mapper's result into two names raises \<^verbatim>\<open>TypeError\<close>
  when the mapper returned \<^verbatim>\<open>None\<close>.
\<close>

definition output_section :: "pytype \<Rightarrow> pyerror + (string \<times> string)" where
  "output_section output_type =
     (if truthy output_type then
        (case map_resource_to_metadata_type output_type of
           None \<Rightarrow> Inl TypeError
         | Some (output_metadata_name, output_metadata_type) \<Rightarrow>
             Inr (join newline
                    [''outputs:'',
                     ''- {name: '' @ output_metadata_name @ '', type: '' @
                       output_metadata_type @ ''}''],
                  join newline
                    [''    - --resource_name_output_artifact_path'',
                     ''    - {outputPath: '' @ output_metadata_name @ ''}'']))
      else Inr ([], []))"

text \<open>
  \<^verbatim>\<open>convert_method_to_component\<close> up to the wrapper and its \<^verbatim>\<open>__signature__\<close>.  The
  documentation text it attaches afterwards comes from the \<^verbatim>\<open>docstring_parser\<close> package
  and is no part of the manifest.
\<close>

definition convert_method_to_component ::
  "pyenv \<Rightarrow> pyclass_info \<Rightarrow> pymethod \<Rightarrow> pyerror + wrapper" where
  "convert_method_to_component env cls method =
     (case filter_signature (signature_of method) False NoneT None of
        Inl e \<Rightarrow> Inl e
      | Inr (method_sg, unused) \<Rightarrow>
     (case filter_signature (init_method_signature cls) True (ClassT (the_class cls)) (Some []) of
        Inl e \<Rightarrow> Inl e
      | Inr (init_sg, renames) \<Rightarrow>
     (case output_section (resolve_annotation (aiplatform_getattr env) (return_annotation method_sg)) of
        Inl e \<Rightarrow> Inl e
      | Inr (outs, out_args) \<Rightarrow>
     (case (if isfunction method then signatures_union init_sg method_sg else Inr method_sg) of
        Inl e \<Rightarrow> Inl e
      | Inr sg \<Rightarrow>
          Inr \<lparr>cls_name = class_name (the_class cls),
               method_name = dunder_name method,
               init_signature = init_sg,
               method_signature = method_sg,
               should_serialize_init = isfunction method,
               component_param_name_to_mb_sdk_param_name = (case renames of None \<Rightarrow> [] | Some d \<Rightarrow> d),
               init_arg_names = (if isfunction method then set (map name (parameters init_sg)) else {}),
               outputs = outs,
               output_args = out_args,
               dunder_signature = sg\<rparr>))))"

section \<open>The generated wrapper\<close>

text \<open>The local variables of \<^verbatim>\<open>component_yaml_generator\<close> that its loop updates.\<close>

record gen_state =
  inputs :: "string list"
  input_args :: "string list"
  input_kwargs :: "(string \<times> pyvalue) list"
  serialized_args :: "(string \<times> (string \<times> pyvalue) list) list"
  init_kwargs :: "(string \<times> pyvalue) list"
  method_kwargs :: "(string \<times> pyvalue) list"

definition initial_state :: gen_state where
  "initial_state =
     \<lparr>inputs = [''inputs:''], input_args = [], input_kwargs = [],
      serialized_args = [(INIT_KEY, []), (METHOD_KEY, [])],
      init_kwargs = [], method_kwargs = []\<rparr>"

text \<open>\<^verbatim>\<open>signature.parameters[key]\<close>, which raises \<^verbatim>\<open>KeyError\<close> on a name that is not there.\<close>

definition lookup_parameter :: "signature \<Rightarrow> string \<Rightarrow> pyerror + parameter" where
  "lookup_parameter sg key =
     (case find (\<lambda>p. name p = key) (parameters sg) of
        None \<Rightarrow> Inl KeyError
      | Some p \<Rightarrow> Inr p)"

text \<open>\<^verbatim>\<open>isinstance(value, kfp.dsl._pipeline_param.PipelineParam)\<close>\<close>

fun is_PipelineParam :: "pyvalue \<Rightarrow> bool" where
  "is_PipelineParam (VPipelineParam n) = True"
| "is_PipelineParam _ = False"

text \<open>\<^verbatim>\<open>serialized_args[prefix_key][component_param_name] = value\<close>\<close>

definition set_serialized_arg ::
  "(string \<times> (string \<times> pyvalue) list) list \<Rightarrow> string \<Rightarrow> string \<Rightarrow> pyvalue
   \<Rightarrow> (string \<times> (string \<times> pyvalue) list) list" where
  "set_serialized_arg sargs prefix_key component_param_name v =
     map (\<lambda>(k, d). if k = prefix_key then (k, dict_set d component_param_name v) else (k, d)) sargs"

text \<open>
  Lines 517 to 520: with a serializer, the type becomes \<^verbatim>\<open>str\<close> and the value its JSON
  text; \<^verbatim>\<open>json.dumps\<close> may raise.
\<close>

definition serialize_value ::
  "pyenv \<Rightarrow> pytype \<Rightarrow> pyvalue \<Rightarrow> pyerror + (pytype \<times> pyvalue)" where
  "serialize_value env param_type v =
     (case get_serializer (json_dumps env) param_type of
        None \<Rightarrow> Inr (param_type, v)
      | Some serializer \<Rightarrow>
          (case serializer v of
             Inl e \<Rightarrow> Inl e
           | Inr json_text \<Rightarrow> Inr (ClassT str_class, VStr json_text)))"

text \<open>
  Lines 530 to 534: the type of the input and how it is bound.  Taking element 1 of the
  mapper's result raises \<^verbatim>\<open>TypeError\<close> when the mapper returned \<^verbatim>\<open>None\<close>.
\<close>

definition input_binding :: "pytype \<Rightarrow> pyerror + (string \<times> string)" where
  "input_binding param_type =
     (if is_mb_sdk_resource_noun_type param_type then
        (case map_resource_to_metadata_type param_type of
           None \<Rightarrow> Inl TypeError
         | Some r \<Rightarrow> Inr (snd r, ''inputPath''))
      else Inr (''String'', ''inputValue''))"

definition add_input ::
  "string \<Rightarrow> string \<Rightarrow> string \<Rightarrow> string \<Rightarrow> string \<Rightarrow> pyvalue \<Rightarrow> gen_state \<Rightarrow> gen_state" where
  "add_input prefix_key component_param_name key component_param_type component_type v st =
     st\<lparr>inputs := inputs st @
           [''- {name: '' @ key @ '', type: '' @ component_param_type @ ''}''],
        input_args := input_args st @
           [join newline
              [''    - --'' @ prefix_key @ ''.'' @ component_param_name,
               ''    - {'' @ component_type @ '': '' @ key @ ''}'']],
        input_kwargs := dict_set (input_kwargs st) key v\<rparr>"

definition add_static_arg :: "string \<Rightarrow> string \<Rightarrow> pyvalue \<Rightarrow> gen_state \<Rightarrow> gen_state" where
  "add_static_arg prefix_key component_param_name v st =
     st\<lparr>serialized_args :=
          set_serialized_arg (serialized_args st) prefix_key component_param_name v\<rparr>"

text \<open>
  The part of the loop body after the \<^verbatim>\<open>None\<close> test, for an argument of partition
  \<open>prefix_key\<close> whose annotation is read from \<open>sg\<close>.
\<close>

definition classify_kwarg ::
  "pyenv \<Rightarrow> wrapper \<Rightarrow> string \<Rightarrow> signature \<Rightarrow> string \<Rightarrow> pyvalue \<Rightarrow> gen_state
   \<Rightarrow> pyerror + gen_state" where
  "classify_kwarg env w prefix_key sg key v st =
     (case lookup_parameter sg key of
        Inl e \<Rightarrow> Inl e
      | Inr param \<Rightarrow>
          (let resolved = resolve_annotation (aiplatform_getattr env) (annotation param);
               serializer = get_serializer (json_dumps env) resolved
           in case serialize_value env resolved v of
                Inl e \<Rightarrow> Inl e
              | Inr (param_type, val) \<Rightarrow>
                  (let component_param_name =
                         dict_get (component_param_name_to_mb_sdk_param_name w) key key
                   in if is_PipelineParam val \<or> serializer \<noteq> None then
                        (case input_binding param_type of
                           Inl e \<Rightarrow> Inl e
                         | Inr (component_param_type, component_type) \<Rightarrow>
                             Inr (add_input prefix_key component_param_name key
                                    component_param_type component_type val st))
                      else Inr (add_static_arg prefix_key component_param_name val st))))"

text \<open>One round of the loop over \<^verbatim>\<open>kwargs.items()\<close>.\<close>

definition process_kwarg ::
  "pyenv \<Rightarrow> wrapper \<Rightarrow> string \<Rightarrow> pyvalue \<Rightarrow> gen_state \<Rightarrow> pyerror + gen_state" where
  "process_kwarg env w key v st =
     (if key \<in> init_arg_names w then
        (let st' = st\<lparr>init_kwargs := dict_set (init_kwargs st) key v\<rparr> in
         if v = VNone then Inr st'
         else classify_kwarg env w INIT_KEY (init_signature w) key v st')
      else
        (let st' = st\<lparr>method_kwargs := dict_set (method_kwargs st) key v\<rparr> in
         if v = VNone then Inr st'
         else classify_kwarg env w METHOD_KEY (method_signature w) key v st'))"

fun process_kwargs ::
  "pyenv \<Rightarrow> wrapper \<Rightarrow> (string \<times> pyvalue) list \<Rightarrow> gen_state \<Rightarrow> pyerror + gen_state" where
  "process_kwargs env w [] st = Inr st"
| "process_kwargs env w ((key, v) # rest) st =
     (case process_kwarg env w key v st of
        Inl e \<Rightarrow> Inl e
      | Inr st' \<Rightarrow> process_kwargs env w rest st')"

text \<open>
  \<^verbatim>\<open>make_args\<close>: the list \<^verbatim>\<open>additional_args\<close> gets one line for each entry of each inner
  dictionary, and the lines are joined.
\<close>

definition additional_args ::
  "pyenv \<Rightarrow> (string \<times> (string \<times> pyvalue) list) list \<Rightarrow> string list" where
  "additional_args env args_to_serialize =
     concat (map (\<lambda>(key, args).
         map (\<lambda>(arg_key, v). ''    - --'' @ key @ ''.'' @ arg_key @ ''='' @ py_format env v) args)
       args_to_serialize)"

definition make_args :: "pyenv \<Rightarrow> (string \<times> (string \<times> pyvalue) list) list \<Rightarrow> string" where
  "make_args env args_to_serialize = join newline (additional_args env args_to_serialize)"

text \<open>The two calls of \<^verbatim>\<open>bind\<close> that validate the partitioned arguments.\<close>

definition validate_kwargs :: "wrapper \<Rightarrow> gen_state \<Rightarrow> pyerror + unit" where
  "validate_kwargs w st =
     (case (if should_serialize_init w then bind (init_signature w) (init_kwargs st) else Inr ()) of
        Inl e \<Rightarrow> Inl e
      | Inr u \<Rightarrow> bind (method_signature w) (method_kwargs st))"

definition component_text :: "pyenv \<Rightarrow> wrapper \<Rightarrow> gen_state \<Rightarrow> string" where
  "component_text env w st =
     join newline
       [''name: '' @ cls_name w @ ''-'' @ method_name w,
        (if 1 < length (inputs st) then join newline (inputs st) else []),
        outputs w,
        ''implementation:'',
        ''  container:'',
        ''    image: '' @ DEFAULT_CONTAINER_IMAGE,
        ''    command:'',
        ''    - python3'',
        ''    - -m'',
        ''    - google_cloud_components.aiplatform.remote_runner'',
        ''    - --cls_name='' @ cls_name w,
        ''    - --method_name='' @ method_name w,
        make_args env (serialized_args st),
        ''    args:'',
        output_args w,
        (if input_args st \<noteq> [] then join newline (input_args st) else [])]"

text \<open>
  The wrapper.  Its result is the manifest text, which it prints and hands to the
  component loader, with the keyword arguments it calls the loaded component with.
\<close>

definition component_yaml_generator ::
  "pyenv \<Rightarrow> wrapper \<Rightarrow> (string \<times> pyvalue) list
   \<Rightarrow> pyerror + (string \<times> (string \<times> pyvalue) list)" where
  "component_yaml_generator env w kwargs =
     (case process_kwargs env w kwargs initial_state of
        Inl e \<Rightarrow> Inl e
      | Inr st \<Rightarrow>
          (case validate_kwargs w st of
             Inl e \<Rightarrow> Inl e
           | Inr u \<Rightarrow> Inr (component_text env w st, input_kwargs st)))"

section \<open>The JSON encoder, an environment and a class for the examples\<close>

text \<open>
  \<^verbatim>\<open>json.dumps\<close> with its default arguments, on the values of \<open>pyvalue\<close>: \<^verbatim>\<open>None\<close>,
  booleans, integers, strings, lists, dictionaries with string keys, and pipeline
  parameters (\<open>pyvalue\<close> has no float, no tuple and no dictionary with other keys, so
  nothing is said on how the library encodes those).  The separators are \<^verbatim>\<open>", "\<close> and
  \<^verbatim>\<open>": "\<close>, every character outside the printable ASCII range is escaped, an integer
  of more than 4300 digits raises \<^verbatim>\<open>ValueError\<close> (the interpreter's limit on the conversion
  of integers to text), and a pipeline parameter, which is no JSON value, raises
  \<^verbatim>\<open>TypeError\<close>.
\<close>

definition hex_digit :: "nat \<Rightarrow> char" where
  "hex_digit n = ''0123456789abcdef'' ! (n mod 16)"

definition json_escape_char :: "char \<Rightarrow> string" where
  "json_escape_char c =
     (if c = CHR 0x22 then [CHR 0x5C, CHR 0x22]
      else if c = CHR 0x5C then [CHR 0x5C, CHR 0x5C]
      else if c = CHR 0x0A then [CHR 0x5C, CHR ''n'']
      else if c = CHR 0x0D then [CHR 0x5C, CHR ''r'']
      else if c = CHR 0x09 then [CHR 0x5C, CHR ''t'']
      else if c = CHR 0x08 then [CHR 0x5C, CHR ''b'']
      else if c = CHR 0x0C then [CHR 0x5C, CHR ''f'']
      else if (of_char c :: nat) < 32 \<or> 126 < (of_char c :: nat)
      then [CHR 0x5C, CHR ''u'', CHR ''0'', CHR ''0'',
            hex_digit ((of_char c :: nat) div 16), hex_digit (of_char c :: nat)]
      else [c])"

definition json_string :: "string \<Rightarrow> string" where
  "json_string s = [CHR 0x22] @ concat (map json_escape_char s) @ [CHR 0x22]"

fun decimal_digits :: "nat \<Rightarrow> nat \<Rightarrow> string" where
  "decimal_digits 0 n = []"
| "decimal_digits (Suc fuel) n =
     (if n < 10 then [''0123456789'' ! n]
      else decimal_digits fuel (n div 10) @ [''0123456789'' ! (n mod 10)])"

text \<open>A number below \<open>10 ^ Suc n\<close> has at most \<open>Suc n\<close> digits, and \<open>n < 10 ^ Suc n\<close>.\<close>

definition decimal :: "int \<Rightarrow> string" where
  "decimal i =
     (if i < 0 then CHR ''-'' # decimal_digits (Suc (nat (- i))) (nat (- i))
      else decimal_digits (Suc (nat i)) (nat i))"

fun example_dumps :: "pyvalue \<Rightarrow> pyerror + string"
  and example_dumps_items :: "pyvalue list \<Rightarrow> pyerror + string list"
  and example_dumps_pairs :: "(string \<times> pyvalue) list \<Rightarrow> pyerror + string list" where
  "example_dumps VNone = Inr ''null''"
| "example_dumps (VBool b) = Inr (if b then ''true'' else ''false'')"
| "example_dumps (VInt i) =
     (if 4300 < length (decimal (abs i)) then Inl ValueError else Inr (decimal i))"
| "example_dumps (VStr s) = Inr (json_string s)"
| "example_dumps (VList xs) =
     (case example_dumps_items xs of
        Inl e \<Rightarrow> Inl e
      | Inr items \<Rightarrow> Inr (''['' @ join '', '' items @ '']''))"
| "example_dumps (VDict kvs) =
     (case example_dumps_pairs kvs of
        Inl e \<Rightarrow> Inl e
      | Inr items \<Rightarrow> Inr (''{'' @ join '', '' items @ ''}''))"
| "example_dumps (VPipelineParam n) = Inl TypeError"
| "example_dumps_items [] = Inr []"
| "example_dumps_items (x # xs) =
     (case example_dumps x of
        Inl e \<Rightarrow> Inl e
      | Inr t \<Rightarrow> (case example_dumps_items xs of Inl e \<Rightarrow> Inl e | Inr ts \<Rightarrow> Inr (t # ts)))"
| "example_dumps_pairs [] = Inr []"
| "example_dumps_pairs ((k, x) # kvs) =
     (case example_dumps x of
        Inl e \<Rightarrow> Inl e
      | Inr t \<Rightarrow>
          (case example_dumps_pairs kvs of
             Inl e \<Rightarrow> Inl e
           | Inr ts \<Rightarrow> Inr ((json_string k @ '': '' @ t) # ts)))"

text \<open>
  What an f-string puts for \<^verbatim>\<open>None\<close>, a boolean, an integer and a string.  The examples
  format no other value; the text of a container or of a pipeline parameter is not
  modelled and left empty here.
\<close>

definition example_format :: "pyvalue \<Rightarrow> string" where
  "example_format v =
     (case v of
        VNone \<Rightarrow> ''None''
      | VBool b \<Rightarrow> (if b then ''True'' else ''False'')
      | VInt i \<Rightarrow> decimal i
      | VStr s \<Rightarrow> s
      | _ \<Rightarrow> [])"

definition example_env :: pyenv where
  "example_env =
     \<lparr>aiplatform_getattr = sdk_getattr, py_format = example_format, json_dumps = example_dumps\<rparr>"

text \<open>
  Parameters as \<^verbatim>\<open>inspect.signature\<close> gives them for \<^verbatim>\<open>def f(self, x: T, y: T = d)\<close>:
  positional-or-keyword, with or without a default.
\<close>

definition required_param :: "string \<Rightarrow> pytype \<Rightarrow> parameter" where
  "required_param n a =
     \<lparr>name = n, kind = POSITIONAL_OR_KEYWORD, default_value = None, annotation = a\<rparr>"

definition optional_param :: "string \<Rightarrow> pytype \<Rightarrow> pyvalue \<Rightarrow> parameter" where
  "optional_param n a d =
     \<lparr>name = n, kind = POSITIONAL_OR_KEYWORD, default_value = Some d, annotation = a\<rparr>"

text \<open>
  The class \<^verbatim>\<open>Model\<close> with the constructor
  \<^verbatim>\<open>__init__(self, model_name: str, project: Optional[str] = None, credentials = None)\<close>.
\<close>

definition example_Model :: pyclass_info where
  "example_Model =
     \<lparr>the_class = Model_class,
      init_method_signature =
        \<lparr>parameters =
           [required_param ''self'' EmptyT,
            required_param ''model_name'' (ClassT str_class),
            optional_param ''project'' (UnionT (ClassT str_class) [ClassT (PyClass ''NoneType'' [])]) VNone,
            optional_param ''credentials'' EmptyT VNone],
         return_annotation = EmptyT\<rparr>\<rparr>"

section \<open>What the specification says, where it differs from the module\<close>

text \<open>
  \<open>subclass_of t k\<close>: the annotation \<open>t\<close> is a class and a subclass of \<open>k\<close>.
\<close>

definition subclass_of :: "pytype \<Rightarrow> pyclass \<Rightarrow> bool" where
  "subclass_of t k = (case t of ClassT c \<Rightarrow> issubclass c k | _ \<Rightarrow> False)"

text \<open>
  The type-to-artifact mapper as the specification words it: a resource-noun class maps
  to the pair of the table entry whose key is its most specific superclass, a
  JSON-serializable container type maps to the exported-dataset pair, and anything else
  has no mapping.  \<open>mapper_as_stated t r\<close> holds when \<open>r\<close> is such a result for \<open>t\<close>.
\<close>

definition mapper_as_stated :: "pytype \<Rightarrow> (string \<times> string) option \<Rightarrow> bool" where
  "mapper_as_stated t r =
     (if is_mb_sdk_resource_noun_type t then
        (\<exists>(key, label) \<in> set RESOURCE_TO_METADATA_TYPE.
            subclass_of t key \<and>
            (\<forall>(key', label') \<in> set RESOURCE_TO_METADATA_TYPE.
                subclass_of t key' \<longrightarrow> issubclass key key') \<and>
            r = Some (key_parameter_name key, label))
      else if is_serializable_to_json t then r = Some (''exported_dataset'', ''JsonArray'')
      else r = None)"

text \<open>
  The object a string or a forward reference names in the SDK module (\<open>NoneT\<close> for any
  other annotation).
\<close>

definition named_object :: "(string \<Rightarrow> pytype) \<Rightarrow> pytype \<Rightarrow> pytype" where
  "named_object ns a = (case a of StrT s \<Rightarrow> ns s | ForwardRefT s \<Rightarrow> ns s | _ \<Rightarrow> NoneT)"

text \<open>
  The annotation resolver as the specification words it: a resource-noun class, given
  directly or named by a forward reference, is the result; otherwise a union gives its
  first argument, resolved through a forward reference when that names a resource-noun
  class; otherwise the annotation is returned unchanged, an empty one as \<^verbatim>\<open>None\<close>.
\<close>

definition resolve_annotation_as_stated :: "(string \<Rightarrow> pytype) \<Rightarrow> pytype \<Rightarrow> pytype" where
  "resolve_annotation_as_stated ns a =
     (if is_mb_sdk_resource_noun_type a then a
      else if is_mb_sdk_resource_noun_type (named_object ns a) then named_object ns a
      else (case a of
              UnionT arg0 rest \<Rightarrow>
                if is_mb_sdk_resource_noun_type (named_object ns arg0)
                then named_object ns arg0 else arg0
            | EmptyT \<Rightarrow> NoneT
            | _ \<Rightarrow> a))"

text \<open>
  The resolver as the module has it: a name is resolved to whatever truthy object the SDK
  module holds under it.
\<close>

definition resolve_annotation_by_name :: "(string \<Rightarrow> pytype) \<Rightarrow> pytype \<Rightarrow> pytype" where
  "resolve_annotation_by_name ns a =
     (if is_mb_sdk_resource_noun_type a then a
      else if truthy (named_object ns a) then named_object ns a
      else (case a of
              UnionT arg0 rest \<Rightarrow>
                if truthy (named_object ns arg0) then named_object ns arg0 else arg0
            | EmptyT \<Rightarrow> NoneT
            | _ \<Rightarrow> a))"

text \<open>
  The variable \<^verbatim>\<open>output_type\<close> of the conversion: the resolved return annotation of the
  method (filtering a signature keeps its return annotation).
\<close>

definition output_type :: "pyenv \<Rightarrow> pymethod \<Rightarrow> pytype" where
  "output_type env method =
     resolve_annotation (aiplatform_getattr env) (return_annotation (signature_of method))"

text \<open>
  A method \<^verbatim>\<open>describe(self) -> str\<close> and a method \<^verbatim>\<open>delete(self, sync=True)\<close> with no
  return annotation.
\<close>

definition describe_method :: pymethod where
  "describe_method =
     \<lparr>dunder_name = ''describe'',
      signature_of =
        \<lparr>parameters = [required_param ''self'' EmptyT],
         return_annotation = ClassT str_class\<rparr>,
      isfunction = True\<rparr>"

definition delete_method :: pymethod where
  "delete_method =
     \<lparr>dunder_name = ''delete'',
      signature_of =
        \<lparr>parameters =
           [required_param ''self'' EmptyT,
            optional_param ''sync'' (ClassT (PyClass ''bool'' [])) (VBool True)],
         return_annotation = EmptyT\<rparr>,
      isfunction = True\<rparr>"

text \<open>
  What \<^verbatim>\<open>inspect.Signature\<close> checks, as properties of the parameter list: the kinds do not
  decrease (starting from \<open>top_kind\<close>), and among positional parameters none without a
  default follows one with a default.
\<close>

fun kinds_ordered :: "kind \<Rightarrow> parameter list \<Rightarrow> bool" where
  "kinds_ordered top_kind [] = True"
| "kinds_ordered top_kind (p # ps) =
     (kind_rank top_kind \<le> kind_rank (kind p) \<and> kinds_ordered (kind p) ps)"

fun defaults_ordered :: "bool \<Rightarrow> parameter list \<Rightarrow> bool" where
  "defaults_ordered seen_default [] = True"
| "defaults_ordered seen_default (p # ps) =
     (\<not> (is_positional (kind p) \<and> default_value p = None \<and> seen_default) \<and>
      defaults_ordered (seen_default \<or> (is_positional (kind p) \<and> default_value p \<noteq> None)) ps)"

text \<open>
  The merged parameter list of the specification: the constructor's parameters followed
  by the method's, those without a default moved before those with one, each group in
  its order of concatenation.
\<close>

definition merged_parameters :: "signature \<Rightarrow> signature \<Rightarrow> parameter list" where
  "merged_parameters init_sig method_sig =
     filter (\<lambda>p. default_value p = None) (parameters init_sig @ parameters method_sig) @
     filter (\<lambda>p. default_value p \<noteq> None) (parameters init_sig @ parameters method_sig)"

text \<open>
  The signature merger as the specification words it: for every two signatures it
  returns the signature of the merged parameters with the method's return annotation.
\<close>

definition union_as_stated :: "signature \<Rightarrow> signature \<Rightarrow> bool" where
  "union_as_stated init_sig method_sig =
     (signatures_union init_sig method_sig =
        Inr \<lparr>parameters = merged_parameters init_sig method_sig,
             return_annotation = return_annotation method_sig\<rparr>)"











text \<open>
  The method \<^verbatim>\<open>deploy\<close> of \<^verbatim>\<open>Model\<close>, after the example in the documentation of
  \<^verbatim>\<open>convert_method_to_component\<close>:
  \<^verbatim>\<open>deploy(self, endpoint: Optional["Endpoint"] = None, machine_type: Optional[str] = None,
  labels: Optional[List[str]] = None, sync=True) -> Endpoint\<close>.
\<close>

definition deploy_method :: pymethod where
  "deploy_method =
     \<lparr>dunder_name = ''deploy'',
      signature_of =
        \<lparr>parameters =
           [required_param ''self'' EmptyT,
            optional_param ''endpoint''
              (UnionT (ForwardRefT ''Endpoint'') [ClassT (PyClass ''NoneType'' [])]) VNone,
            optional_param ''machine_type''
              (UnionT (ClassT str_class) [ClassT (PyClass ''NoneType'' [])]) VNone,
            optional_param ''labels''
              (UnionT (GenericT ListO [ClassT str_class]) [ClassT (PyClass ''NoneType'' [])]) VNone,
            optional_param ''sync'' (ClassT (PyClass ''bool'' [])) (VBool True)],
         return_annotation = ClassT Endpoint_class\<rparr>,
      isfunction = True\<rparr>"

text \<open>
  The two partitions of the keyword arguments: an argument is constructor-scoped when its
  name is in \<^verbatim>\<open>init_arg_names\<close>, and method-scoped otherwise.
\<close>

definition init_scoped :: "wrapper \<Rightarrow> (string \<times> pyvalue) list \<Rightarrow> (string \<times> pyvalue) list" where
  "init_scoped w kwargs = filter (\<lambda>kv. fst kv \<in> init_arg_names w) kwargs"

definition method_scoped :: "wrapper \<Rightarrow> (string \<times> pyvalue) list \<Rightarrow> (string \<times> pyvalue) list" where
  "method_scoped w kwargs = filter (\<lambda>kv. fst kv \<notin> init_arg_names w) kwargs"


definition has_var_keyword :: "signature \<Rightarrow> bool" where
  "has_var_keyword sg = list_ex (\<lambda>p. kind p = VAR_KEYWORD) (parameters sg)"

definition unknown_name :: "signature \<Rightarrow> string \<Rightarrow> bool" where
  "unknown_name sg key = (key \<notin> set (map name (parameters sg)) \<and> \<not> has_var_keyword sg)"


text \<open>
  The part of the loop's state that the manifest and the call of the loaded component are
  made of: everything but the two partitions.
\<close>

definition manifest_part ::
  "gen_state \<Rightarrow> string list \<times> string list \<times> (string \<times> pyvalue) list \<times>
     (string \<times> (string \<times> pyvalue) list) list" where
  "manifest_part st = (inputs st, input_args st, input_kwargs st, serialized_args st)"

text \<open>
  What one round of the loop works with: the prefix and the signature of the argument's
  partition, the state with the argument recorded in its partition, the resolved
  annotation of the parameter it names (if it names one), and the name it has on the
  command line.
\<close>

definition prefix_of :: "wrapper \<Rightarrow> string \<Rightarrow> string" where
  "prefix_of w key = (if key \<in> init_arg_names w then INIT_KEY else METHOD_KEY)"

definition signature_for :: "wrapper \<Rightarrow> string \<Rightarrow> signature" where
  "signature_for w key =
     (if key \<in> init_arg_names w then init_signature w else method_signature w)"

definition record_kwarg :: "wrapper \<Rightarrow> string \<Rightarrow> pyvalue \<Rightarrow> gen_state \<Rightarrow> gen_state" where
  "record_kwarg w key v st =
     (if key \<in> init_arg_names w then st\<lparr>init_kwargs := dict_set (init_kwargs st) key v\<rparr>
      else st\<lparr>method_kwargs := dict_set (method_kwargs st) key v\<rparr>)"

definition resolved_type :: "pyenv \<Rightarrow> wrapper \<Rightarrow> string \<Rightarrow> pytype option" where
  "resolved_type env w key =
     (case lookup_parameter (signature_for w key) key of
        Inl e \<Rightarrow> None
      | Inr param \<Rightarrow> Some (resolve_annotation (aiplatform_getattr env) (annotation param)))"






text \<open>The keyword arguments that are not \<^verbatim>\<open>None\<close>, in their order.\<close>

definition without_None :: "(string \<times> pyvalue) list \<Rightarrow> (string \<times> pyvalue) list" where
  "without_None kwargs = filter (\<lambda>kv. snd kv \<noteq> VNone) kwargs"





text \<open>
  A \<^verbatim>\<open>None\<close> argument as the specification words it: a name that neither filtered
  signature has as a parameter makes the call raise, also when its value is \<^verbatim>\<open>None\<close>.
\<close>

definition none_validated_as_stated ::
  "pyenv \<Rightarrow> wrapper \<Rightarrow> (string \<times> pyvalue) list \<Rightarrow> string \<Rightarrow> bool" where
  "none_validated_as_stated env w kwargs key =
     ((key, VNone) \<in> set kwargs \<and>
      key \<notin> set (map name (parameters (init_signature w))) \<and>
      key \<notin> set (map name (parameters (method_signature w)))
      \<longrightarrow> (case component_yaml_generator env w kwargs of Inl e \<Rightarrow> True | Inr r \<Rightarrow> False))"

text \<open>
  A class method \<^verbatim>\<open>create(cls, display_name: str, **kwargs)\<close>, as \<^verbatim>\<open>inspect.signature\<close>
  shows it when taken from the class: without \<^verbatim>\<open>cls\<close>, and no plain function.
\<close>

definition create_method :: pymethod where
  "create_method =
     \<lparr>dunder_name = ''create'',
      signature_of =
        \<lparr>parameters =
           [required_param ''display_name'' (ClassT str_class),
            \<lparr>name = ''kwargs'', kind = VAR_KEYWORD, default_value = None, annotation = EmptyT\<rparr>],
         return_annotation = EmptyT\<rparr>,
      isfunction = False\<rparr>"

text \<open>
  The wrappers that the conversion gives for \<^verbatim>\<open>Model.deploy\<close> and for \<^verbatim>\<open>Model.create\<close>
  (the conversion of both completes, see \<open>example_wrappers\<close> below).
\<close>

definition deploy_wrapper :: wrapper where
  "deploy_wrapper = projr (convert_method_to_component example_env example_Model deploy_method)"

definition create_wrapper :: wrapper where
  "create_wrapper = projr (convert_method_to_component example_env example_Model create_method)"

section \<open>Properties of the class relation and of the mapper\<close>

lemma issubclass_refl: "issubclass c c"
  by (cases c) simp

lemma issubclass_trans: "issubclass a b \<Longrightarrow> issubclass b c \<Longrightarrow> issubclass a c"
proof (induction a b rule: issubclass.induct)
  case (1 n bs k)
  show ?case
  proof (cases "PyClass n bs = k")
    case True
    with "1.prems" show ?thesis by simp
  next
    case False
    with "1.prems" obtain b where b: "b \<in> set bs" "issubclass b k"
      by (auto simp: list_ex_iff)
    with "1.IH" "1.prems" have "issubclass b c" by blast
    with b show ?thesis by (auto simp: list_ex_iff)
  qed
qed

lemma key_is_noun:
  "issubclass Dataset_class AiPlatformResourceNoun"
  "issubclass Model_class AiPlatformResourceNoun"
  "issubclass Endpoint_class AiPlatformResourceNoun"
  "issubclass BatchPredictionJob_class AiPlatformResourceNoun"
  by (simp_all add: Dataset_class_def Model_class_def Endpoint_class_def
      BatchPredictionJob_class_def AiPlatformResourceNoun_def)

lemma key_parameter_names:
  "key_parameter_name Dataset_class = ''dataset''"
  "key_parameter_name Model_class = ''model''"
  "key_parameter_name Endpoint_class = ''endpoint''"
  "key_parameter_name BatchPredictionJob_class = ''batchpredictionjob''"
  by code_simp+

lemma table_keys_unrelated:
  "\<forall>(k, l) \<in> set RESOURCE_TO_METADATA_TYPE. \<forall>(k', l') \<in> set RESOURCE_TO_METADATA_TYPE.
     issubclass k k' \<longrightarrow> k = k'"
  by (simp add: RESOURCE_TO_METADATA_TYPE_def Dataset_class_def Model_class_def
      Endpoint_class_def BatchPredictionJob_class_def AiPlatformResourceNoun_def)

lemma map_resource_to_metadata_type_cases:
  "map_resource_to_metadata_type t =
     (if subclass_of t Dataset_class then Some (''dataset'', ''Dataset'')
      else if subclass_of t Model_class then Some (''model'', ''Model'')
      else if subclass_of t Endpoint_class then Some (''endpoint'', ''Artifact'')
      else if subclass_of t BatchPredictionJob_class
        then Some (''batchpredictionjob'', ''Artifact'')
      else if is_serializable_to_json t then Some (''exported_dataset'', ''JsonArray'')
      else if t = StrT ''_Dataset'' then Some (''dataset'', ''Dataset'')
      else None)"
proof (cases t)
  case (ClassT c)
  have noun: "issubclass c k \<Longrightarrow> issubclass k AiPlatformResourceNoun \<Longrightarrow>
      issubclass c AiPlatformResourceNoun" for k
    by (rule issubclass_trans)
  show ?thesis
    using noun[OF _ key_is_noun(1)] noun[OF _ key_is_noun(2)] noun[OF _ key_is_noun(3)]
      noun[OF _ key_is_noun(4)]
    by (auto simp: ClassT map_resource_to_metadata_type_def resource_lookup_def subclass_of_def
        RESOURCE_TO_METADATA_TYPE_def key_parameter_names)
qed (simp_all add: map_resource_to_metadata_type_def resource_lookup_def subclass_of_def)

text \<open>
  Claim C2 (type-to-artifact mapper), as the module has it.  A class under a key of the
  table maps to the pair of the first such key in the table's order; no key of the table
  is a subclass of another, so no other key the class is under is more specific than the
  one that decides.  A JSON-serializable container type maps to
  \<open>(exported_dataset, JsonArray)\<close>, the string \<^verbatim>\<open>'_Dataset'\<close> maps to
  \<open>(dataset, Dataset)\<close>, and anything else, a resource-noun class under no key
  included, has no mapping.
\<close>

theorem mapper_by_table_order:
  "map_resource_to_metadata_type t =
     (if subclass_of t Dataset_class then Some (''dataset'', ''Dataset'')
      else if subclass_of t Model_class then Some (''model'', ''Model'')
      else if subclass_of t Endpoint_class then Some (''endpoint'', ''Artifact'')
      else if subclass_of t BatchPredictionJob_class
        then Some (''batchpredictionjob'', ''Artifact'')
      else if is_serializable_to_json t then Some (''exported_dataset'', ''JsonArray'')
      else if t = StrT ''_Dataset'' then Some (''dataset'', ''Dataset'')
      else None) \<and>
   (\<forall>(k, l) \<in> set RESOURCE_TO_METADATA_TYPE. \<forall>(k', l') \<in> set RESOURCE_TO_METADATA_TYPE.
      issubclass k k' \<longrightarrow> k = k')"
  using map_resource_to_metadata_type_cases table_keys_unrelated by blast

text \<open>
  At a subclass \<^verbatim>\<open>TabularDataset\<close> of \<^verbatim>\<open>_Dataset\<close> the mapper gives the dataset pair.
\<close>

theorem mapper_by_table_order_witness:
  "map_resource_to_metadata_type (ClassT (PyClass ''TabularDataset'' [Dataset_class])) =
     Some (''dataset'', ''Dataset'')"
  using mapper_by_table_order [of "ClassT (PyClass ''TabularDataset'' [Dataset_class])"]
  by (simp add: subclass_of_def issubclass_refl)

text \<open>
  Claim C2 as stated fails at the string \<^verbatim>\<open>'_Dataset'\<close>: it is no resource-noun class and
  no container type, and the mapper still returns \<open>(dataset, Dataset)\<close>.
\<close>

theorem mapper_as_stated_counterexample:
  "\<not> mapper_as_stated (StrT ''_Dataset'') (map_resource_to_metadata_type (StrT ''_Dataset''))"
  by (simp add: mapper_as_stated_def map_resource_to_metadata_type_def resource_lookup_def)

section \<open>Properties of the annotation resolver\<close>

lemma get_forward_reference_named:
  "get_forward_reference ns a = (if truthy (named_object ns a) then named_object ns a else NoneT)"
  by (cases a) (simp_all add: get_forward_reference_def get_aiplatform_class_by_name_def
      named_object_def Let_def)

lemma noun_is_truthy: "is_mb_sdk_resource_noun_type a \<Longrightarrow> truthy a"
  by (cases a) simp_all

text \<open>
  The resolver, case by case: a resource-noun class is returned as it is; a string or a
  forward reference is replaced by the object the SDK module holds under that name,
  whenever there is a truthy one; a union gives its first argument, replaced in the same
  way when it is such a name; the empty annotation gives \<^verbatim>\<open>None\<close>; any other annotation
  is returned unchanged.  Where every name that the SDK module resolves denotes a
  resource-noun class, this is the resolver of the specification.
\<close>

lemma resolve_annotation_cases:
  "resolve_annotation ns a = resolve_annotation_by_name ns a \<and>
   ((\<forall>n. truthy (ns n) \<longrightarrow> is_mb_sdk_resource_noun_type (ns n)) \<longrightarrow>
      resolve_annotation ns a = resolve_annotation_as_stated ns a)"
proof -
  have eq: "resolve_annotation ns a = resolve_annotation_by_name ns a"
    by (cases a)
      (simp_all add: resolve_annotation_def resolve_annotation_by_name_def
        get_forward_reference_named Let_def named_object_def)
  have same: "resolve_annotation_by_name ns a = resolve_annotation_as_stated ns a"
    if nouns: "\<forall>n. truthy (ns n) \<longrightarrow> is_mb_sdk_resource_noun_type (ns n)"
  proof -
    have "truthy (named_object ns b) = is_mb_sdk_resource_noun_type (named_object ns b)" for b
      using nouns noun_is_truthy by (cases b) (auto simp: named_object_def)
    then show ?thesis
      by (simp add: resolve_annotation_by_name_def resolve_annotation_as_stated_def
          split: pytype.splits)
  qed
  from eq same show ?thesis by simp
qed

text \<open>
  Claim C5 (annotation resolver).  The claim has a name resolved when it names a
  resource-noun class, and so have the documentation of \<^verbatim>\<open>get_forward_reference\<close>
  (\<^verbatim>\<open>Resolves forward references to AiPlatform Class\<close>), its return annotation
  \<^verbatim>\<open>Optional[aiplatform.base.AiPlatformResourceNoun]\<close> and the \<^verbatim>\<open>issubclass\<close> test that
  \<^verbatim>\<open>resolve_annotation\<close> makes on a class given directly.  The function itself returns
  whatever truthy attribute the SDK module has under the name.  At the string
  \<^verbatim>\<open>'base'\<close>, which names the submodule \<^verbatim>\<open>aiplatform.base\<close>, it returns the module,
  which is no resource-noun class, and the resolver returns the module too, where the
  claim has the annotation returned unchanged.
\<close>

theorem forward_reference_to_module:
  "get_forward_reference sdk_getattr (StrT ''base'') =
     ObjectT ''module google.cloud.aiplatform.base'' \<and>
   \<not> is_mb_sdk_resource_noun_type (get_forward_reference sdk_getattr (StrT ''base'')) \<and>
   resolve_annotation sdk_getattr (StrT ''base'') =
     ObjectT ''module google.cloud.aiplatform.base'' \<and>
   resolve_annotation_as_stated sdk_getattr (StrT ''base'') = StrT ''base''"
  by (simp add: resolve_annotation_def resolve_annotation_as_stated_def
      get_forward_reference_def get_aiplatform_class_by_name_def named_object_def
      sdk_getattr_def Let_def)

section \<open>Properties of the conversion\<close>

lemma filter_signature_return:
  "filter_signature sg i t d = Inr (sg', d') \<Longrightarrow> return_annotation sg' = return_annotation sg"
  by (auto simp: filter_signature_def Signature_def split: sum.splits prod.splits)

text \<open>
  The output stage: a falsy resolved return annotation (no annotation, or \<^verbatim>\<open>None\<close>) gives
  empty outputs, and so does every conversion that completes with one; a truthy one
  without an entry in the mapping raises \<^verbatim>\<open>TypeError\<close>.
\<close>

lemma output_section_cases:
  "(\<not> truthy (output_type env method) \<longrightarrow>
      output_section (output_type env method) = Inr ([], []) \<and>
      (\<forall>w. convert_method_to_component env cls method = Inr w \<longrightarrow>
           outputs w = [] \<and> output_args w = [])) \<and>
   (truthy (output_type env method) \<and>
    map_resource_to_metadata_type (output_type env method) = None \<longrightarrow>
      output_section (output_type env method) = Inl TypeError \<and>
      (\<exists>e. convert_method_to_component env cls method = Inl e))"
  by (auto simp: convert_method_to_component_def output_section_def output_type_def
      dest!: filter_signature_return split: sum.splits prod.splits option.splits)

text \<open>
  Claim C6 (outputs section).  The conversion guards its output stage with
  \<^verbatim>\<open>if output_type:\<close>, which makes the outputs empty for a method without a return
  annotation (\<^verbatim>\<open>delete(self, sync=True)\<close> below), and then unpacks the mapper's result
  into two names without testing it.  For \<^verbatim>\<open>describe(self) -> str\<close> the resolved return
  annotation is the class \<^verbatim>\<open>str\<close>, the mapper has no entry for it and returns \<^verbatim>\<open>None\<close>, and
  the unpacking raises \<^verbatim>\<open>TypeError\<close>: the conversion yields no component, where the claim
  has it complete with an empty outputs section.
\<close>

theorem unmapped_return_annotation_raises:
  "output_type example_env describe_method = ClassT str_class \<and>
   map_resource_to_metadata_type (output_type example_env describe_method) = None \<and>
   convert_method_to_component example_env example_Model describe_method = Inl TypeError \<and>
   (case convert_method_to_component example_env example_Model delete_method of
      Inl e \<Rightarrow> False
    | Inr w \<Rightarrow> outputs w = [] \<and> output_args w = [])"
proof -
  have "output_type example_env describe_method = ClassT str_class"
    and "map_resource_to_metadata_type (output_type example_env describe_method) = None"
    and "convert_method_to_component example_env example_Model describe_method = Inl TypeError"
    and "case convert_method_to_component example_env example_Model delete_method of
      Inl e \<Rightarrow> False
    | Inr w \<Rightarrow> outputs w = [] \<and> output_args w = []"
    by code_simp+
  then show ?thesis by simp
qed

section \<open>Properties of signatures\<close>

lemma kind_rank_inj: "kind_rank a = kind_rank b \<Longrightarrow> a = b"
  by (cases a; cases b) simp_all

text \<open>The constructor of \<^verbatim>\<open>Signature\<close> accepts exactly the well-ordered lists.\<close>

lemma validate_parameters_iff:
  "validate_parameters tk seen names ps =
     (if kinds_ordered tk ps \<and> defaults_ordered seen ps \<and> distinct (map name ps) \<and>
         set names \<inter> set (map name ps) = {}
      then Inr () else Inl ValueError)"
proof (induction ps arbitrary: tk seen names)
  case Nil
  then show ?case by simp
next
  case (Cons p ps)
  have tk: "(if kind_rank tk < kind_rank (kind p) then kind p else tk) = kind p"
    if "kind_rank tk \<le> kind_rank (kind p)"
    using that kind_rank_inj [of tk "kind p"] by auto
  show ?case
    by (auto simp: Cons tk not_less)
qed

lemma Signature_iff:
  "Signature ps ret =
     (if kinds_ordered POSITIONAL_ONLY ps \<and> defaults_ordered False ps \<and> distinct (map name ps)
      then Inr \<lparr>parameters = ps, return_annotation = ret\<rparr> else Inl ValueError)"
  by (simp add: Signature_def validate_parameters_iff)

subsection \<open>The signature merger\<close>

lemma insort_key_past:
  "\<forall>a \<in> set A. f a < f x \<Longrightarrow> insort_key f x (A @ B) = A @ insort_key f x B"
  by (induction A) auto

lemma sort_key_union_key:
  "sort_key union_key ps =
     filter (\<lambda>p. default_value p = None) ps @ filter (\<lambda>p. default_value p \<noteq> None) ps"
proof (induction ps)
  case Nil
  show ?case by simp
next
  case (Cons p ps)
  show ?case
  proof (cases "default_value p = None")
    case True
    then have "insort_key union_key p (sort_key union_key ps) = p # sort_key union_key ps"
      by (intro insort_is_Cons) (auto simp: union_key_def)
    with True Cons show ?thesis by simp
  next
    case False
    have "insort_key union_key p
            (filter (\<lambda>p. default_value p = None) ps @ filter (\<lambda>p. default_value p \<noteq> None) ps) =
          filter (\<lambda>p. default_value p = None) ps @
            insort_key union_key p (filter (\<lambda>p. default_value p \<noteq> None) ps)"
      using False by (intro insort_key_past) (auto simp: union_key_def)
    moreover have "insort_key union_key p (filter (\<lambda>p. default_value p \<noteq> None) ps) =
        p # filter (\<lambda>p. default_value p \<noteq> None) ps"
      using False by (intro insort_is_Cons) (auto simp: union_key_def)
    ultimately show ?thesis using False Cons by simp
  qed
qed

lemma defaults_ordered_with_defaults:
  "\<forall>p \<in> set ps. default_value p \<noteq> None \<Longrightarrow> defaults_ordered seen ps"
  by (induction ps arbitrary: seen) auto

lemma defaults_ordered_without_defaults:
  "\<forall>p \<in> set A. default_value p = None \<Longrightarrow>
     defaults_ordered False (A @ B) = defaults_ordered False B"
  by (induction A) auto

lemma defaults_ordered_merged: "defaults_ordered False (merged_parameters init_sig method_sig)"
  unfolding merged_parameters_def
  by (subst defaults_ordered_without_defaults; (rule defaults_ordered_with_defaults)?) auto

lemma distinct_map_partition:
  "distinct (map f (filter P xs @ filter (\<lambda>x. \<not> P x) xs)) = distinct (map f xs)"
  by (induction xs) auto

lemma distinct_names_merged:
  "distinct (map name (merged_parameters init_sig method_sig)) =
     distinct (map name (parameters init_sig @ parameters method_sig))"
  unfolding merged_parameters_def by (rule distinct_map_partition)

lemma kinds_ordered_same_kind:
  "\<forall>p \<in> set ps. kind p = k \<Longrightarrow> kind_rank tk \<le> kind_rank k \<Longrightarrow> kinds_ordered tk ps"
  by (induction ps arbitrary: tk) auto

text \<open>
  Claim C4 (signature merger), as the module has it.  The merger sorts the concatenation
  stably by "has a default" and hands the result to the constructor of \<^verbatim>\<open>Signature\<close>,
  which raises \<^verbatim>\<open>ValueError\<close> on a repeated name and on a kind out of order.  So the
  merger returns the merged parameters with the method's return annotation exactly when
  the names of the two signatures are distinct and the kinds of the merged list do not
  decrease, and raises otherwise.  Where every parameter is positional-or-keyword, as the
  module's comment assumes, distinct names are enough.
\<close>

theorem signatures_union_merged:
  "signatures_union init_sig method_sig =
     (if kinds_ordered POSITIONAL_ONLY (merged_parameters init_sig method_sig) \<and>
         distinct (map name (parameters init_sig @ parameters method_sig))
      then Inr \<lparr>parameters = merged_parameters init_sig method_sig,
                return_annotation = return_annotation method_sig\<rparr>
      else Inl ValueError) \<and>
   ((\<forall>p \<in> set (parameters init_sig @ parameters method_sig). kind p = POSITIONAL_OR_KEYWORD) \<longrightarrow>
      kinds_ordered POSITIONAL_ONLY (merged_parameters init_sig method_sig))"
proof -
  have sorted: "sort_key union_key (parameters init_sig @ parameters method_sig) =
      merged_parameters init_sig method_sig"
    by (simp only: sort_key_union_key merged_parameters_def)
  have first: "signatures_union init_sig method_sig =
     (if kinds_ordered POSITIONAL_ONLY (merged_parameters init_sig method_sig) \<and>
         distinct (map name (parameters init_sig @ parameters method_sig))
      then Inr \<lparr>parameters = merged_parameters init_sig method_sig,
                return_annotation = return_annotation method_sig\<rparr>
      else Inl ValueError)"
    unfolding signatures_union_def Let_def sorted Signature_iff
    using defaults_ordered_merged [of init_sig method_sig]
      distinct_names_merged [of init_sig method_sig]
    by simp
  have second: "kinds_ordered POSITIONAL_ONLY (merged_parameters init_sig method_sig)"
    if "\<forall>p \<in> set (parameters init_sig @ parameters method_sig). kind p = POSITIONAL_OR_KEYWORD"
    using that
    by (intro kinds_ordered_same_kind [where k = POSITIONAL_OR_KEYWORD])
      (auto simp: merged_parameters_def)
  from first second show ?thesis by blast
qed

text \<open>
  Merging \<^verbatim>\<open>(model, project=None)\<close> with \<^verbatim>\<open>(endpoint)\<close> gives
  \<^verbatim>\<open>(model, endpoint, project=None)\<close>.
\<close>

theorem signatures_union_merged_witness:
  "signatures_union
      \<lparr>parameters = [required_param ''model'' (ClassT Model_class),
                     optional_param ''project'' (ClassT str_class) VNone],
       return_annotation = EmptyT\<rparr>
      \<lparr>parameters = [required_param ''endpoint'' (ClassT Endpoint_class)],
       return_annotation = ClassT Endpoint_class\<rparr> =
   Inr \<lparr>parameters = [required_param ''model'' (ClassT Model_class),
                       required_param ''endpoint'' (ClassT Endpoint_class),
                       optional_param ''project'' (ClassT str_class) VNone],
        return_annotation = ClassT Endpoint_class\<rparr>"
  using signatures_union_merged
    [of "\<lparr>parameters = [required_param ''model'' (ClassT Model_class),
                        optional_param ''project'' (ClassT str_class) VNone],
          return_annotation = EmptyT\<rparr>"
        "\<lparr>parameters = [required_param ''endpoint'' (ClassT Endpoint_class)],
          return_annotation = ClassT Endpoint_class\<rparr>"]
  by (simp add: merged_parameters_def required_param_def optional_param_def)

text \<open>
  Claim C4 as stated fails where both signatures have a parameter \<^verbatim>\<open>project\<close>: the
  constructor of \<^verbatim>\<open>Signature\<close> refuses the repeated name and the merger raises.
\<close>

theorem union_as_stated_counterexample:
  "\<not> union_as_stated
      \<lparr>parameters = [required_param ''model'' (ClassT Model_class),
                     optional_param ''project'' (ClassT str_class) VNone],
       return_annotation = EmptyT\<rparr>
      \<lparr>parameters = [optional_param ''project'' (ClassT str_class) VNone],
       return_annotation = EmptyT\<rparr>"
  by (simp add: union_as_stated_def signatures_union_def Signature_def union_key_def
      required_param_def optional_param_def is_positional_def)

subsection \<open>The signature filter\<close>



















section \<open>Properties of the wrapper\<close>

subsection \<open>One round of the loop\<close>


lemma process_kwarg_unfold:
  "process_kwarg env w key v st =
     (if v = VNone then Inr (record_kwarg w key v st)
      else classify_kwarg env w (prefix_of w key) (signature_for w key) key v
             (record_kwarg w key v st))"
  by (simp add: process_kwarg_def record_kwarg_def prefix_of_def signature_for_def Let_def)


lemma example_wrappers:
  "convert_method_to_component example_env example_Model deploy_method = Inr deploy_wrapper"
  "convert_method_to_component example_env example_Model create_method = Inr create_wrapper"
  by code_simp+

text \<open>
  Claim C1 (classification of a keyword argument).  The claim has every pipeline
  parameter become an input, and the branch of the loop that tests for one
  (\<^verbatim>\<open>isinstance(value, PipelineParam) or serializer\<close>) is written to take it whatever the
  type of its parameter.  The serializer runs before that test, on every value whose
  parameter is container-typed: a pipeline parameter passed for \<^verbatim>\<open>labels\<close>, of type
  \<^verbatim>\<open>Optional[List[str]]\<close>, goes to \<^verbatim>\<open>json.dumps\<close>, which raises \<^verbatim>\<open>TypeError\<close>, and the call
  of the wrapper raises with it instead of listing \<^verbatim>\<open>labels\<close> as an input.  A pipeline
  parameter passed for \<^verbatim>\<open>project\<close>, of type \<^verbatim>\<open>Optional[str]\<close>, becomes a \<open>String\<close> input
  bound by \<open>inputValue\<close>, as the claim says.
\<close>

theorem pipeline_parameter_serialized:
  "resolved_type example_env deploy_wrapper ''labels'' =
     Some (GenericT ListO [ClassT str_class]) \<and>
   process_kwarg example_env deploy_wrapper ''labels'' (VPipelineParam ''labels'')
       initial_state = Inl TypeError \<and>
   component_yaml_generator example_env deploy_wrapper
       [(''model'', VPipelineParam ''model''), (''labels'', VPipelineParam ''labels'')] =
     Inl TypeError \<and>
   process_kwarg example_env deploy_wrapper ''project'' (VPipelineParam ''project'')
       initial_state =
     Inr (add_input ''init'' ''project'' ''project'' ''String'' ''inputValue''
            (VPipelineParam ''project'')
            (record_kwarg deploy_wrapper ''project'' (VPipelineParam ''project'') initial_state))"
proof -
  have "resolved_type example_env deploy_wrapper ''labels'' =
     Some (GenericT ListO [ClassT str_class])"
    and "process_kwarg example_env deploy_wrapper ''labels'' (VPipelineParam ''labels'')
       initial_state = Inl TypeError"
    and "component_yaml_generator example_env deploy_wrapper
       [(''model'', VPipelineParam ''model''), (''labels'', VPipelineParam ''labels'')] =
     Inl TypeError"
    and "process_kwarg example_env deploy_wrapper ''project'' (VPipelineParam ''project'')
       initial_state =
     Inr (add_input ''init'' ''project'' ''project'' ''String'' ''inputValue''
            (VPipelineParam ''project'')
            (record_kwarg deploy_wrapper ''project'' (VPipelineParam ''project'') initial_state))"
    by code_simp+
  then show ?thesis by simp
qed

subsection \<open>Binding keyword arguments\<close>

lemma map_of_eq_None_keys: "(map_of kw k = None) = (k \<notin> set (map fst kw))"
  by (simp add: map_of_eq_None_iff)

lemma keys_dict_del: "set (map fst (dict_del kw k)) = set (map fst kw) - {k}"
  by (auto simp: dict_del_def)


lemma bind_keywords_unknown:
  "bind_keywords ps kw h = Inr u \<Longrightarrow> \<not> h \<Longrightarrow> \<forall>p \<in> set ps. kind p \<noteq> VAR_KEYWORD \<Longrightarrow>
     set (map fst kw) \<subseteq> set (map name ps)"
proof (induction ps arbitrary: kw)
  case Nil
  then show ?case by (simp split: if_splits)
next
  case (Cons q ps)
  from Cons.prems have nv: "\<forall>p \<in> set ps. kind p \<noteq> VAR_KEYWORD" and q: "kind q \<noteq> VAR_KEYWORD"
    by simp_all
  from Cons.prems(1) q consider
      (same) "bind_keywords ps kw h = Inr u"
    | (del) "bind_keywords ps (dict_del kw (name q)) h = Inr u"
    by (auto split: option.splits if_splits)
  then show ?case
  proof cases
    case same
    from Cons.IH [OF same Cons.prems(2) nv] show ?thesis by auto
  next
    case del
    from Cons.IH [OF del Cons.prems(2) nv] show ?thesis
      by (simp only: keys_dict_del) auto
  qed
qed

lemma bind_bind_keywords:
  "bind sg kw = Inr u \<Longrightarrow> bind_keywords (parameters sg) kw False = Inr u"
  by (cases "parameters sg")
    (auto simp: bind_def split: if_splits option.splits)


lemma bind_unknown:
  "bind sg kw = Inr u \<Longrightarrow> key \<in> set (map fst kw) \<Longrightarrow> \<not> unknown_name sg key"
  using bind_keywords_unknown [of "parameters sg" kw False u]
  by (auto simp: unknown_name_def has_var_keyword_def list_ex_iff dest!: bind_bind_keywords)

subsection \<open>The loop over the keyword arguments\<close>

lemma classify_kwarg_partitions:
  "classify_kwarg env w pk sg key v st = Inr st' \<Longrightarrow>
     init_kwargs st' = init_kwargs st \<and> method_kwargs st' = method_kwargs st"
  by (auto simp: classify_kwarg_def add_input_def add_static_arg_def Let_def
      split: sum.splits prod.splits if_splits)

lemma classify_kwarg_manifest:
  "manifest_part st1 = manifest_part st2 \<Longrightarrow>
     rel_sum (=) (\<lambda>a b. manifest_part a = manifest_part b)
       (classify_kwarg env w pk sg key v st1) (classify_kwarg env w pk sg key v st2)"
  by (auto simp: classify_kwarg_def add_input_def add_static_arg_def Let_def manifest_part_def
      split: sum.splits prod.splits)

lemma record_kwarg_manifest: "manifest_part (record_kwarg w key v st) = manifest_part st"
  by (simp add: record_kwarg_def manifest_part_def)

lemma process_kwarg_partitions:
  "process_kwarg env w key v st = Inr st' \<Longrightarrow>
     init_kwargs st' = init_kwargs (record_kwarg w key v st) \<and>
     method_kwargs st' = method_kwargs (record_kwarg w key v st)"
  by (auto simp: process_kwarg_unfold split: if_splits dest: classify_kwarg_partitions)

lemma process_kwarg_manifest:
  "manifest_part st1 = manifest_part st2 \<Longrightarrow>
     rel_sum (=) (\<lambda>a b. manifest_part a = manifest_part b)
       (process_kwarg env w key v st1) (process_kwarg env w key v st2)"
  by (simp add: process_kwarg_unfold record_kwarg_manifest classify_kwarg_manifest)

lemma process_kwargs_without_None:
  "manifest_part st1 = manifest_part st2 \<Longrightarrow>
     rel_sum (=) (\<lambda>a b. manifest_part a = manifest_part b)
       (process_kwargs env w kwargs st1) (process_kwargs env w (without_None kwargs) st2)"
proof (induction kwargs arbitrary: st1 st2)
  case Nil
  then show ?case by (simp add: without_None_def)
next
  case (Cons kv kwargs)
  obtain key v where kv: "kv = (key, v)" by (cases kv)
  show ?case
  proof (cases "v = VNone")
    case True
    have "manifest_part (record_kwarg w key v st1) = manifest_part st2"
      using Cons.prems by (simp add: record_kwarg_manifest)
    from Cons.IH [OF this] True show ?thesis
      by (simp add: kv without_None_def process_kwarg_unfold)
  next
    case False
    from process_kwarg_manifest [OF Cons.prems, of env w key v] False Cons.IH
    show ?thesis
      by (cases "process_kwarg env w key v st1"; cases "process_kwarg env w key v st2")
        (simp_all add: kv without_None_def)
  qed
qed

lemma dict_set_fresh: "k \<notin> set (map fst d) \<Longrightarrow> dict_set d k v = d @ [(k, v)]"
  by (induction d) auto

lemma process_kwargs_partitions:
  assumes "process_kwargs env w kwargs st = Inr st'"
    and "distinct (map fst kwargs)"
    and "set (map fst kwargs) \<inter> set (map fst (init_kwargs st)) = {}"
    and "set (map fst kwargs) \<inter> set (map fst (method_kwargs st)) = {}"
  shows "init_kwargs st' = init_kwargs st @ init_scoped w kwargs \<and>
     method_kwargs st' = method_kwargs st @ method_scoped w kwargs"
  using assms
proof (induction kwargs arbitrary: st)
  case Nil
  then show ?case by (simp add: init_scoped_def method_scoped_def)
next
  case (Cons kv kwargs)
  obtain key v where kv: "kv = (key, v)" by (cases kv)
  from Cons.prems(1) obtain st1 where
    step: "process_kwarg env w key v st = Inr st1"
    and rest: "process_kwargs env w kwargs st1 = Inr st'"
    by (auto simp: kv split: sum.splits)
  from Cons.prems(3,4) have fresh: "key \<notin> set (map fst (init_kwargs st))"
    "key \<notin> set (map fst (method_kwargs st))"
    by (auto simp: kv)
  from process_kwarg_partitions [OF step] fresh
  have st1: "init_kwargs st1 = (if key \<in> init_arg_names w then init_kwargs st @ [(key, v)]
        else init_kwargs st)"
    "method_kwargs st1 = (if key \<in> init_arg_names w then method_kwargs st
        else method_kwargs st @ [(key, v)])"
    by (auto simp: record_kwarg_def dict_set_fresh)
  have "init_kwargs st' = init_kwargs st1 @ init_scoped w kwargs \<and>
     method_kwargs st' = method_kwargs st1 @ method_scoped w kwargs"
    using Cons.prems(2,3,4)
    by (intro Cons.IH [OF rest]) (auto simp: st1 kv)
  then show ?case
    by (simp add: st1 kv init_scoped_def method_scoped_def)
qed

lemma initial_partitions:
  "process_kwargs env w kwargs initial_state = Inr st \<Longrightarrow> distinct (map fst kwargs) \<Longrightarrow>
     init_kwargs st = init_scoped w kwargs \<and> method_kwargs st = method_scoped w kwargs"
  using process_kwargs_partitions [of env w kwargs initial_state st]
  by (simp add: initial_state_def)

subsection \<open>Validation of the arguments\<close>

lemma convert_wrapper_facts:
  assumes "convert_method_to_component env cls method = Inr w"
  shows "should_serialize_init w = isfunction method"
    and "init_arg_names w =
      (if isfunction method then set (map name (parameters (init_signature w))) else {})"
  using assms
  by (auto simp: convert_method_to_component_def split: sum.splits prod.splits)

lemma component_text_manifest:
  "manifest_part a = manifest_part b \<Longrightarrow>
     component_text env w a = component_text env w b \<and> input_kwargs a = input_kwargs b"
  by (simp add: manifest_part_def component_text_def)

lemma generator_validated:
  assumes "component_yaml_generator env w kwargs = Inr r" and "distinct (map fst kwargs)"
  shows "bind (method_signature w) (method_scoped w kwargs) = Inr ()"
    and "should_serialize_init w \<Longrightarrow> bind (init_signature w) (init_scoped w kwargs) = Inr ()"
proof -
  from assms(1) obtain st where
    st: "process_kwargs env w kwargs initial_state = Inr st"
    and v: "validate_kwargs w st = Inr ()"
    by (auto simp: component_yaml_generator_def split: sum.splits)
  from initial_partitions [OF st assms(2)] v
  show "bind (method_signature w) (method_scoped w kwargs) = Inr ()"
    and "should_serialize_init w \<Longrightarrow> bind (init_signature w) (init_scoped w kwargs) = Inr ()"
    by (auto simp: validate_kwargs_def split: sum.splits if_splits)
qed




subsection \<open>What the manifest depends on\<close>

lemma generator_without_None:
  assumes "component_yaml_generator env w kwargs = Inr (manifest, ik)"
  shows "\<exists>st. process_kwargs env w (without_None kwargs) initial_state = Inr st \<and>
     manifest = component_text env w st \<and> ik = input_kwargs st"
proof -
  from assms obtain st1 where
    st1: "process_kwargs env w kwargs initial_state = Inr st1"
    and res: "manifest = component_text env w st1" "ik = input_kwargs st1"
    by (auto simp: component_yaml_generator_def split: sum.splits)
  from process_kwargs_without_None [of initial_state initial_state env w kwargs] st1
  obtain st where "process_kwargs env w (without_None kwargs) initial_state = Inr st"
    and "manifest_part st1 = manifest_part st"
    by (cases "process_kwargs env w (without_None kwargs) initial_state") auto
  with res component_text_manifest [of st1 st env w] show ?thesis by auto
qed
















text \<open>
  Claim C10 (an argument \<^verbatim>\<open>None\<close>), as the module has it.  The round of the loop for an
  argument \<^verbatim>\<open>None\<close> records it in its partition and changes nothing else: no input, no
  input binding, no static argument.  The manifest of a call that completes is the one
  made from the arguments other than \<^verbatim>\<open>None\<close>.  The argument is bound with its partition:
  for a wrapper that the conversion produced, a name that is no parameter of the
  constructor's signature and is unknown to the method's signature (no parameter bears
  it, and there is no \<^verbatim>\<open>**kwargs\<close> parameter to take it) makes the call raise, with the
  value \<^verbatim>\<open>None\<close> too.
\<close>

theorem none_argument_skipped:
  "process_kwarg env w key VNone st = Inr (record_kwarg w key VNone st) \<and>
   manifest_part (record_kwarg w key VNone st) = manifest_part st \<and>
   (key, VNone) \<in> set (if key \<in> init_arg_names w
                        then init_kwargs (record_kwarg w key VNone st)
                        else method_kwargs (record_kwarg w key VNone st)) \<and>
   (component_yaml_generator env w kwargs = Inr (manifest, ik) \<longrightarrow>
      (\<exists>st'. process_kwargs env w (without_None kwargs) initial_state = Inr st' \<and>
          manifest = component_text env w st' \<and> ik = input_kwargs st')) \<and>
   (convert_method_to_component env cls method = Inr w \<and> distinct (map fst kwargs) \<and>
    (key, VNone) \<in> set kwargs \<and>
    key \<notin> set (map name (parameters (init_signature w))) \<and>
    unknown_name (method_signature w) key
      \<longrightarrow> (\<exists>e. component_yaml_generator env w kwargs = Inl e))"
proof -
  have in_dict: "(k, v) \<in> set (dict_set d k v)" for k :: string and v :: pyvalue and d
    by (induction d) auto
  have recorded: "(key, VNone) \<in> set (if key \<in> init_arg_names w
                        then init_kwargs (record_kwarg w key VNone st)
                        else method_kwargs (record_kwarg w key VNone st))"
    by (simp add: record_kwarg_def in_dict)
  have raises: "\<exists>e. component_yaml_generator env w kwargs = Inl e"
    if conv: "convert_method_to_component env cls method = Inr w"
      and dist: "distinct (map fst kwargs)"
      and given: "(key, VNone) \<in> set kwargs"
      and no_init: "key \<notin> set (map name (parameters (init_signature w)))"
      and unknown: "unknown_name (method_signature w) key"
  proof (cases "component_yaml_generator env w kwargs")
    case (Inl e)
    then show ?thesis by blast
  next
    case (Inr r)
    from convert_wrapper_facts(2) [OF conv] no_init have "key \<notin> init_arg_names w"
      by (auto split: if_splits)
    with given have "key \<in> set (map fst (method_scoped w kwargs))"
      by (force simp: method_scoped_def)
    with bind_unknown [OF generator_validated(1) [OF Inr dist]] unknown
    show ?thesis by blast
  qed
  from recorded raises generator_without_None [of env w kwargs manifest ik]
  show ?thesis
    by (simp add: process_kwarg_unfold record_kwarg_manifest)
qed

text \<open>
  In the wrapper of \<^verbatim>\<open>Model.deploy\<close>, \<^verbatim>\<open>machine_type=None\<close> is recorded only, and
  \<^verbatim>\<open>zone=None\<close> makes the call raise.
\<close>

theorem none_argument_skipped_witness:
  "process_kwarg example_env deploy_wrapper ''machine_type'' VNone initial_state =
     Inr (record_kwarg deploy_wrapper ''machine_type'' VNone initial_state) \<and>
   (case component_yaml_generator example_env deploy_wrapper
           [(''model'', VPipelineParam ''m''), (''zone'', VNone)] of
      Inl e \<Rightarrow> True | Inr r \<Rightarrow> False)"
proof -
  have "''zone'' \<notin> set (map name (parameters (init_signature deploy_wrapper)))"
    and "unknown_name (method_signature deploy_wrapper) ''zone''"
    by code_simp+
  with none_argument_skipped
    [of example_env deploy_wrapper "''zone''" initial_state
      "[(''model'', VPipelineParam ''m''), (''zone'', VNone)]" "[]" "[]"
      example_Model deploy_method]
    example_wrappers(1)
  have "\<exists>e. component_yaml_generator example_env deploy_wrapper
           [(''model'', VPipelineParam ''m''), (''zone'', VNone)] = Inl e"
    by simp
  moreover
  from none_argument_skipped [of example_env deploy_wrapper "''machine_type''" initial_state]
  have "process_kwarg example_env deploy_wrapper ''machine_type'' VNone initial_state =
     Inr (record_kwarg deploy_wrapper ''machine_type'' VNone initial_state)"
    by blast
  ultimately show ?thesis by auto
qed

text \<open>
  Claim C10 as stated fails for the class method \<^verbatim>\<open>create(cls, display_name, **kwargs)\<close>:
  the name \<^verbatim>\<open>foo\<close> is a parameter of neither signature, and the call with \<^verbatim>\<open>foo=None\<close>
  completes, since binding puts \<^verbatim>\<open>foo\<close> under \<^verbatim>\<open>**kwargs\<close>.
\<close>

theorem none_validated_as_stated_counterexample:
  "\<not> none_validated_as_stated example_env create_wrapper
       [(''display_name'', VStr ''m''), (''foo'', VNone)] ''foo''"
  by code_simp

end
